theory Spec2Isabelle
  imports Main "HOL-Library.Word" "HOL-Library.Sublist"
begin

section \<open>The asset cache of \<open>transplacer.go\<close>\<close>

text \<open>
  The file \<open>transplacer.go\<close> keeps an in-memory cache of static files (\<open>AssetCache\<close>),
  builds cache entries from the file system (\<open>Gen\<close>), looks them up (\<open>Get\<close>), sweeps
  them on a ticker (the goroutine of \<open>MakeAssetCache\<close>) and writes them to a response
  (\<open>Serve\<close>). The embedding below follows the Go text function by function. Everything
  the Go code obtains from outside the package (the file system, the clock, gzip,
  SHA-256, the MIME table) is a field of the record \<open>world\<close>, so that each failure the
  code checks for is a value the model can receive.
\<close>

subsection \<open>Values\<close>

type_synonym byte = "8 word"

text \<open>\<open>time.Time\<close> and \<open>time.Duration\<close> are counted in nanoseconds.\<close>

type_synonym time = int
type_synonym duration = int

text \<open>Go's \<open>error\<close> values that the code can meet.\<close>

datatype error =
    ErrNotExist
  | ErrPermission
  | ErrIO
  | ErrInvalidLevel int
  | ErrCompress
  | ErrWrite
  | ErrNotFound

text \<open>A Go call either returns or panics.\<close>

datatype 'a outcome = Panics | Returns 'a

text \<open>What \<open>os.Stat\<close> reports and the code reads: \<open>IsDir()\<close> and \<open>ModTime()\<close>.\<close>

record FileInfo =
  IsDir :: bool
  StatModTime :: time

text \<open>
  An open \<open>*os.File\<close> is used once, by \<open>io.Copy(h, f)\<close>, which reads it to the end:
  the handle is the result of that read, an error or the bytes.
\<close>

type_synonym File = "error + byte list"

record world =
  Stat :: "string \<Rightarrow> error + FileInfo"
  Open :: "string \<Rightarrow> error + File"
  ReadFile :: "string \<Rightarrow> error + byte list"
  GzipStream :: "int \<Rightarrow> byte list \<Rightarrow> error + byte list"
  Sum256 :: "byte list \<Rightarrow> byte list"
  TypeByExtension :: "string \<Rightarrow> string"
  Now :: time
  Abs :: "string \<Rightarrow> error + string"
  TimeFormat :: "time \<Rightarrow> string"

text \<open>
  The struct \<open>Asset\<close>. A \<open>[]byte\<close> that is \<open>nil\<close> is \<open>None\<close>; the zero \<open>string\<close> is
  \<open>''''\<close>, the zero \<open>time.Time\<close> is \<open>0\<close>.
\<close>

record Asset =
  ContentType :: string
  Loaded :: time
  ModTime :: time
  Content :: "byte list"
  ContentCompressed :: "byte list option"
  Etag :: string
  EtagCompressed :: string
  Compressed :: bool

text \<open>A \<open>*time.Ticker\<close>: its period, and whether \<open>Stop\<close> has been called on it.\<close>

record Ticker =
  Period :: duration
  Stopped :: bool

text \<open>The struct \<open>AssetCache\<close>; the hash map is a finite map from keys to assets.\<close>

record AssetCache =
  Dir :: string
  Cache :: "string \<rightharpoonup> Asset"
  Expire :: duration
  Interval :: duration
  CacheControl :: string
  Ticker :: "Ticker option"

subsection \<open>Paths\<close>

text \<open>
  \<open>path.Clean\<close> of the Go library, by its documented rules: the path is cut at its
  slashes; empty elements and \<open>.\<close> are dropped; \<open>..\<close> removes the element before it,
  is dropped at the root of a rooted path and is kept at the start of a relative one;
  the empty result is \<open>.\<close>.
\<close>

fun split_slash :: "string \<Rightarrow> string list" where
  "split_slash [] = [[]]"
| "split_slash (c # cs) =
     (if c = CHR ''/'' then [] # split_slash cs
      else (case split_slash cs of [] \<Rightarrow> [[c]] | s # ss \<Rightarrow> (c # s) # ss))"

fun join_slash :: "string list \<Rightarrow> string" where
  "join_slash [] = []"
| "join_slash [s] = s"
| "join_slash (s # t # ss) = s @ CHR ''/'' # join_slash (t # ss)"

definition clean_elem :: "bool \<Rightarrow> string list \<Rightarrow> string \<Rightarrow> string list" where
  "clean_elem rooted out seg =
     (if seg = [] then out
      else if seg = ''.'' then out
      else if seg = ''..'' then
        (if out \<noteq> [] \<and> last out \<noteq> ''..'' then butlast out
         else if rooted then out
         else out @ [''..''])
      else out @ [seg])"

definition Clean :: "string \<Rightarrow> string" where
  "Clean p =
     (if p = [] then ''.''
      else
        (let rooted = (hd p = CHR ''/'');
             out = foldl (clean_elem rooted) [] (split_slash p);
             s = (if rooted then ''/'' else []) @ join_slash out
         in if s = [] then ''.'' else s))"

text \<open>An element that \<open>path.Clean\<close> keeps in a rooted path: a name without a slash.\<close>

definition plain :: "string \<Rightarrow> bool" where
  "plain s = (s \<noteq> [] \<and> s \<noteq> ''.'' \<and> s \<noteq> ''..'' \<and> CHR ''/'' \<notin> set s)"

text \<open>
  \<open>filepath.Ext\<close>: scan from the end of the path; stop with the empty string at a
  slash, and with the suffix from the dot at the first dot.
\<close>

fun ext_scan :: "string \<Rightarrow> string \<Rightarrow> string" where
  "ext_scan [] seen = []"
| "ext_scan (c # cs) seen =
     (if c = CHR ''/'' then []
      else if c = CHR ''.'' then c # seen
      else ext_scan cs (c # seen))"

definition Ext :: "string \<Rightarrow> string" where
  "Ext p = ext_scan (rev p) []"

subsection \<open>Compressible extensions\<close>

definition Compressable :: "string list" where
  "Compressable =
     ['''', ''.txt'', ''.htm'', ''.html'', ''.css'', ''.toml'', ''.php'', ''.js'',
      ''.json'', ''.md'', ''.mdown'', ''.xml'', ''.svg'', ''.go'', ''.cgi'', ''.py'',
      ''.pl'', ''.aspx'', ''.asp'']"

definition lower_char :: "char \<Rightarrow> char" where
  "lower_char c =
     (case map_of (zip ''ABCDEFGHIJKLMNOPQRSTUVWXYZ'' ''abcdefghijklmnopqrstuvwxyz'') c of
        None \<Rightarrow> c
      | Some l \<Rightarrow> l)"

text \<open>
  Modelled from the spec: \<open>stringsContainsCI\<close> is called by \<open>Gen\<close> and is defined in
  another file of the package. The spec says the extension is looked up in the
  allow-list case-insensitively, the empty extension included.
\<close>

definition stringsContainsCI :: "string list \<Rightarrow> string \<Rightarrow> bool" where
  "stringsContainsCI list s = (map lower_char s \<in> set (map (map lower_char) list))"

subsection \<open>Building an asset\<close>

text \<open>\<open>fmt.Sprintf(`"%x"`, et)\<close>: two lower-case hexadecimal digits for each byte, in quotes.\<close>

definition hex_digit :: "nat \<Rightarrow> char" where
  "hex_digit n = ''0123456789abcdef'' ! (n mod 16)"

definition hex_byte :: "byte \<Rightarrow> string" where
  "hex_byte b = [hex_digit (unat b div 16), hex_digit (unat b mod 16)]"

definition quoted_hex :: "byte list \<Rightarrow> string" where
  "quoted_hex et = CHR 0x22 # concat (map hex_byte et) @ [CHR 0x22]"

text \<open>
  \<open>gzipBytes\<close>: \<open>gzip.NewWriterLevel\<close> refuses a level outside \<open>-2 .. 9\<close>; then
  \<open>Write\<close>, \<open>Flush\<close> and \<open>Close\<close> run on a fresh buffer, and their first error or the
  buffer they leave is \<open>GzipStream\<close>.
\<close>

definition gzipBytes :: "world \<Rightarrow> byte list \<Rightarrow> int \<Rightarrow> error + byte list" where
  "gzipBytes w content level =
     (if level < -2 \<or> 9 < level then Inl (ErrInvalidLevel level)
      else GzipStream w level content)"

text \<open>
  The part of \<open>Gen\<close> after the file has been opened and read (lines 129 to 178):
  \<open>name\<close> is the cleaned path, \<open>fs\<close> the result of \<open>os.Stat\<close>, \<open>f\<close> the open file and
  \<open>content\<close> what \<open>ioutil.ReadFile\<close> returned.
  The hash of the compressed bytes is fed from memory and cannot fail. The last test
  \<open>err == nil\<close> comes after the return on \<open>err != nil\<close> and always holds, so the store
  into the cache follows every successful copy of the file into the hash.
\<close>

definition Gen_built ::
  "world \<Rightarrow> AssetCache \<Rightarrow> string \<Rightarrow> FileInfo \<Rightarrow> File \<Rightarrow> byte list \<Rightarrow> AssetCache \<times> (error + Asset)" where
  "Gen_built w a name fs f content =
     (let ext = Ext name;
          asset = \<lparr>ContentType = TypeByExtension w ext,
                   Loaded = 0,
                   ModTime = StatModTime fs,
                   Content = content,
                   ContentCompressed = None,
                   Etag = [],
                   EtagCompressed = [],
                   Compressed = stringsContainsCI Compressable ext\<rparr>;
          packed =
            (if Compressed asset then
               (case gzipBytes w content 9 of
                  Inl err \<Rightarrow> Inl err
                | Inr compressed \<Rightarrow>
                    Inr (asset\<lparr>EtagCompressed := quoted_hex (Sum256 w compressed),
                               ContentCompressed := Some compressed\<rparr>))
             else Inr asset)
      in case packed of
           Inl err \<Rightarrow> (a, Inl err)
         | Inr asset1 \<Rightarrow>
             (case f of
                Inl err \<Rightarrow> (a, Inl err)
              | Inr read \<Rightarrow>
                  (let asset2 = asset1\<lparr>Etag := quoted_hex (Sum256 w read), Loaded := Now w\<rparr>
                   in (a\<lparr>Cache := (Cache a)(name \<mapsto> asset2)\<rparr>, Inr asset2))))"

text \<open>
  \<open>Gen\<close>. The call on a directory is a call of \<open>Gen\<close> itself on the cleaned name
  followed by \<open>/index.html\<close>, with no bound on how often that happens: a call that
  never returns is \<open>None\<close>.
\<close>

partial_function (option) Gen ::
  "world \<Rightarrow> AssetCache \<Rightarrow> string \<Rightarrow> (AssetCache \<times> (error + Asset)) option" where
  "Gen w a name0 =
     (case Stat w (Clean (Dir a @ name0)) of
        Inl err \<Rightarrow> Some (a, Inl err)
      | Inr fs \<Rightarrow>
          if IsDir fs then Gen w a (Clean (Dir a @ name0) @ ''/index.html'')
          else
            (case Open w (Clean (Dir a @ name0)) of
               Inl err \<Rightarrow> Some (a, Inl err)
             | Inr f \<Rightarrow>
                 (case ReadFile w (Clean (Dir a @ name0)) of
                    Inl err \<Rightarrow> Some (a, Inl err)
                  | Inr content \<Rightarrow> Some (Gen_built w a (Clean (Dir a @ name0)) fs f content))))"

declare Gen.simps [code]

subsection \<open>The cache's operations\<close>

text \<open>
  \<open>Get\<close>, as written: the branch taken when the key is in the map calls \<open>Gen\<close> on the
  cleaned name; the other branch asserts the type of the \<open>nil\<close> interface value that
  the map returned for the missing key, which panics.
\<close>

definition Get ::
  "world \<Rightarrow> AssetCache \<Rightarrow> string \<Rightarrow> (AssetCache \<times> (Asset option \<times> bool) outcome) option" where
  "Get w a name0 =
     (case Cache a (Clean (Dir a @ name0)) of
        Some raw \<Rightarrow>
          (case Gen w a (Clean (Dir a @ name0)) of
             None \<Rightarrow> None
           | Some (a', Inl err) \<Rightarrow> Some (a', Returns (None, False))
           | Some (a', Inr asset) \<Rightarrow> Some (a', Returns (Some asset, True)))
      | None \<Rightarrow> Some (a, Panics))"

definition Del :: "AssetCache \<Rightarrow> string \<Rightarrow> AssetCache" where
  "Del a name0 = a\<lparr>Cache := (Cache a)(Clean (Dir a @ name0) := None)\<rparr>"

definition Stop :: "Ticker \<Rightarrow> Ticker" where
  "Stop t = t\<lparr>Stopped := True\<rparr>"

definition Close :: "AssetCache \<Rightarrow> AssetCache \<times> error option" where
  "Close a = (a\<lparr>Cache := Map.empty, Ticker := map_option Stop (Ticker a)\<rparr>, None)"

text \<open>\<open>time.NewTicker\<close> panics on a period that is not positive.\<close>

definition NewTicker :: "duration \<Rightarrow> Ticker outcome" where
  "NewTicker d = (if d \<le> 0 then Panics else Returns \<lparr>Period = d, Stopped = False\<rparr>)"

definition SetInterval :: "AssetCache \<Rightarrow> duration \<Rightarrow> AssetCache outcome" where
  "SetInterval a interval =
     (case NewTicker interval of
        Panics \<Rightarrow> Panics
      | Returns t \<Rightarrow> Returns (a\<lparr>Interval := interval, Ticker := Some t\<rparr>))"

definition MakeAssetCache ::
  "world \<Rightarrow> string \<Rightarrow> duration \<Rightarrow> duration \<Rightarrow> (error + AssetCache) outcome" where
  "MakeAssetCache w dir expire interval =
     (case Abs w dir of
        Inl err \<Rightarrow> Returns (Inl err)
      | Inr d \<Rightarrow>
          (case SetInterval \<lparr>Dir = d, Cache = Map.empty, Expire = expire, Interval = 0,
                             CacheControl = ''private, must-revalidate'', Ticker = None\<rparr> interval of
             Panics \<Rightarrow> Panics
           | Returns a \<Rightarrow> Returns (Inr a)))"

text \<open>
  The body of the goroutine started by \<open>MakeAssetCache\<close>, for one value \<open>now\<close> received
  from the ticker: every entry of the map for which
  \<open>asset.Loaded.Add(a.Expire).After(now)\<close> holds is deleted.
\<close>

definition Add :: "time \<Rightarrow> duration \<Rightarrow> time" where
  "Add t d = t + d"

definition After :: "time \<Rightarrow> time \<Rightarrow> bool" where
  "After t u = (u < t)"

definition sweep :: "AssetCache \<Rightarrow> time \<Rightarrow> AssetCache" where
  "sweep a now =
     a\<lparr>Cache := (\<lambda>key. case Cache a key of
                          None \<Rightarrow> None
                        | Some asset \<Rightarrow>
                            if After (Add (Loaded asset) (Expire a)) now then None
                            else Some asset)\<rparr>"

text \<open>The goroutine over the ticks it receives, in order.\<close>

definition sweeper :: "AssetCache \<Rightarrow> time list \<Rightarrow> AssetCache" where
  "sweeper a ticks = foldl sweep a ticks"

subsection \<open>Serving\<close>

text \<open>
  Modelled from the spec: the type \<open>Ctx\<close> and its methods are declared in another file
  of the package. By the spec, \<open>Header\<close> reads a header of the request, \<open>GetHeader\<close> and
  \<open>SetHeader\<close> read and set a header of the response, \<open>SetContentType\<close> sets the
  response's content type, and \<open>Write\<close> hands bytes to the response sink and returns
  how many it took and an error if it failed. \<open>Written\<close> lists the slices handed to
  \<open>Write\<close>; \<open>NotFound\<close> is what the not-found path of \<open>Handler\<close> returns.
\<close>

record Ctx =
  URLPath :: string
  ReqHeader :: "string \<rightharpoonup> string"
  RespHeader :: "string \<rightharpoonup> string"
  Written :: "byte list list"
  ContentLength :: "64 word"
  WriteResult :: "byte list \<Rightarrow> nat \<times> error option"
  NotFound :: "error option"

definition Header :: "Ctx \<Rightarrow> string \<Rightarrow> string" where
  "Header c k = (case ReqHeader c k of None \<Rightarrow> [] | Some v \<Rightarrow> v)"

definition GetHeader :: "Ctx \<Rightarrow> string \<Rightarrow> string" where
  "GetHeader c k = (case RespHeader c k of None \<Rightarrow> [] | Some v \<Rightarrow> v)"

definition SetHeader :: "Ctx \<Rightarrow> string \<Rightarrow> string \<Rightarrow> Ctx" where
  "SetHeader c k v = c\<lparr>RespHeader := (RespHeader c)(k \<mapsto> v)\<rparr>"

definition SetContentType :: "Ctx \<Rightarrow> string \<Rightarrow> Ctx" where
  "SetContentType c v = SetHeader c ''content-type'' v"

definition Write :: "Ctx \<Rightarrow> byte list \<Rightarrow> Ctx \<times> nat \<times> error option" where
  "Write c b = (c\<lparr>Written := Written c @ [b]\<rparr>, WriteResult c b)"

text \<open>\<open>strings.Contains\<close>: the second string occurs in the first.\<close>

fun Contains :: "string \<Rightarrow> string \<Rightarrow> bool" where
  "Contains [] sub = (sub = [])"
| "Contains (c # cs) sub = (if prefix sub (c # cs) then True else Contains cs sub)"

text \<open>The bytes of a slice that may be \<open>nil\<close>.\<close>

definition slice :: "byte list option \<Rightarrow> byte list" where
  "slice b = (case b of None \<Rightarrow> [] | Some bs \<Rightarrow> bs)"

definition Serve :: "world \<Rightarrow> Asset \<Rightarrow> Ctx \<Rightarrow> Ctx \<times> error option" where
  "Serve w as c =
     (let c1 = SetContentType c (ContentType as);
          c2 = (if GetHeader c1 ''last-modified'' = []
                then SetHeader c1 ''last-modified'' (TimeFormat w (ModTime as))
                else c1);
          (c3, n, err) =
            (if Compressed as \<and> Contains (Header c2 ''accept-encoding'') ''gzip''
             then Write (SetHeader c2 ''etag'' (EtagCompressed as)) (slice (ContentCompressed as))
             else Write (SetHeader c2 ''etag'' (Etag as)) (Content as))
      in if err = None
         then (c3\<lparr>ContentLength := ContentLength c3 + of_nat n\<rparr>, err)
         else (c3, err))"

text \<open>\<open>Handler\<close>: the name it passes to \<open>Get\<close>, and the handler itself.\<close>

definition Handler_name :: "AssetCache \<Rightarrow> Ctx \<Rightarrow> string" where
  "Handler_name a c = Clean (Dir a @ URLPath c)"

definition Handler ::
  "world \<Rightarrow> AssetCache \<Rightarrow> Ctx \<Rightarrow> (AssetCache \<times> (Ctx \<times> error option) outcome) option" where
  "Handler w a c =
     (case Get w a (Handler_name a c) of
        None \<Rightarrow> None
      | Some (a', Panics) \<Rightarrow> Some (a', Panics)
      | Some (a', Returns (Some asset, True)) \<Rightarrow> Some (a', Returns (Serve w asset c))
      | Some (a', Returns (_, _)) \<Rightarrow> Some (a', Returns (c, NotFound c)))"

subsection \<open>Concrete worlds\<close>

text \<open>
  A file tree as a list of paths with their nodes gives a world: \<open>os.Stat\<close>,
  \<open>os.Open\<close> and \<open>ioutil.ReadFile\<close> answer from the tree. The table \<open>go_mime\<close> holds
  entries of the built-in table of Go's \<open>mime\<close> package, which gives every text type
  the parameter \<open>charset=utf-8\<close>. The compressor and the digest of these worlds are
  small stand-ins: the theorems about \<open>Gen\<close> hold for every compressor and digest.
\<close>

datatype node = DirNode time | FileNode "byte list" time

definition go_mime :: "string \<Rightarrow> string" where
  "go_mime ext =
     (case map_of [(''.css'', ''text/css; charset=utf-8''),
                   (''.gif'', ''image/gif''),
                   (''.htm'', ''text/html; charset=utf-8''),
                   (''.html'', ''text/html; charset=utf-8''),
                   (''.png'', ''image/png'')] ext of
        None \<Rightarrow> []
      | Some t \<Rightarrow> t)"

definition disk :: "(string \<times> node) list \<Rightarrow> time \<Rightarrow> world" where
  "disk tree clock =
     \<lparr>Stat = (\<lambda>p. case map_of tree p of
                None \<Rightarrow> Inl ErrNotExist
              | Some (DirNode t) \<Rightarrow> Inr \<lparr>IsDir = True, StatModTime = t\<rparr>
              | Some (FileNode b t) \<Rightarrow> Inr \<lparr>IsDir = False, StatModTime = t\<rparr>),
      Open = (\<lambda>p. case map_of tree p of
                None \<Rightarrow> Inl ErrNotExist
              | Some (DirNode t) \<Rightarrow> Inr (Inl ErrIO)
              | Some (FileNode b t) \<Rightarrow> Inr (Inr b)),
      ReadFile = (\<lambda>p. case map_of tree p of
                None \<Rightarrow> Inl ErrNotExist
              | Some (DirNode t) \<Rightarrow> Inl ErrIO
              | Some (FileNode b t) \<Rightarrow> Inr b),
      GzipStream = (\<lambda>level b. Inr (0x1f # 0x8b # b)),
      Sum256 = (\<lambda>b. [of_nat (length b), foldr (+) b 0]),
      TypeByExtension = go_mime,
      Now = clock,
      Abs = (\<lambda>d. Inr (Clean d)),
      TimeFormat = (\<lambda>t. ''Thu, 01 Jan 1970 00:00:00 GMT'')\<rparr>"

text \<open>A cache over a root directory, with a time to live of 10 and no entries.\<close>

definition fresh_cache :: "string \<Rightarrow> AssetCache" where
  "fresh_cache d =
     \<lparr>Dir = d, Cache = Map.empty, Expire = 10, Interval = 1,
      CacheControl = ''private, must-revalidate'',
      Ticker = Some \<lparr>Period = 1, Stopped = False\<rparr>\<rparr>"

text \<open>The bytes of \<open>hello\<close> and of \<open>old\<close>.\<close>

definition hello :: "byte list" where
  "hello = [0x68, 0x65, 0x6c, 0x6c, 0x6f]"

definition old_bytes :: "byte list" where
  "old_bytes = [0x6f, 0x6c, 0x64]"

text \<open>An entry as a cache may hold it, loaded at the given time.\<close>

definition plain_asset :: "byte list \<Rightarrow> time \<Rightarrow> Asset" where
  "plain_asset b t =
     \<lparr>ContentType = ''image/png'', Loaded = t, ModTime = 0, Content = b,
      ContentCompressed = None, Etag = quoted_hex [0x01], EtagCompressed = [],
      Compressed = False\<rparr>"

text \<open>A request context with the given path and \<open>Accept-Encoding\<close>, whose sink takes every byte.\<close>

definition request :: "string \<Rightarrow> string \<Rightarrow> Ctx" where
  "request p enc =
     \<lparr>URLPath = p, ReqHeader = [''accept-encoding'' \<mapsto> enc], RespHeader = Map.empty,
      Written = [], ContentLength = 0, WriteResult = (\<lambda>b. (length b, None)),
      NotFound = Some ErrNotFound\<rparr>"

text \<open>
  A site served from the root directory with one image, a cache that holds an older
  entry for the image, and a cache whose entry was loaded at time 100.
\<close>

definition site :: world where
  "site = disk [(''/'', DirNode 0), (''/logo.png'', FileNode hello 3)] 50"

definition warm :: AssetCache where
  "warm = (fresh_cache ''/'')\<lparr>Cache := [''/logo.png'' \<mapsto> plain_asset old_bytes 40]\<rparr>"

definition aged :: AssetCache where
  "aged = (fresh_cache ''/'')\<lparr>Cache := [''/logo.png'' \<mapsto> plain_asset hello 100]\<rparr>"

text \<open>A tree in which the index file of a directory is a directory with an index file.\<close>

definition nested :: world where
  "nested = disk [(''/'', DirNode 0), (''/docs'', DirNode 1), (''/docs/index.html'', DirNode 2),
                  (''/docs/index.html/index.html'', FileNode hello 3)] 50"

text \<open>A site under \<open>/srv\<close>, and a machine with a file outside the root \<open>/srv/www\<close>.\<close>

definition srv :: world where
  "srv = disk [(''/srv'', DirNode 0), (''/srv/index.html'', FileNode hello 3),
               (''/srv/docs'', DirNode 1), (''/srv/docs/index.html'', FileNode hello 4)] 50"

definition machine :: world where
  "machine = disk [(''/srv'', DirNode 0), (''/srv/www'', DirNode 0), (''/etc'', DirNode 0),
                   (''/etc/passwd'', FileNode old_bytes 3)] 50"

text \<open>The site \<open>srv\<close> on a disk whose open files cannot be read.\<close>

definition unreadable :: world where
  "unreadable = srv\<lparr>Open := (\<lambda>p. Inr (Inl ErrIO))\<rparr>"

text \<open>The asset of a call of \<open>Gen\<close> that returned one.\<close>

definition Gen_asset :: "world \<Rightarrow> AssetCache \<Rightarrow> string \<Rightarrow> Asset option" where
  "Gen_asset w a name0 =
     (case Gen w a name0 of
        None \<Rightarrow> None
      | Some (a', Inl err) \<Rightarrow> None
      | Some (a', Inr asset) \<Rightarrow> Some asset)"

section \<open>Properties\<close>

subsection \<open>Evaluation on concrete worlds\<close>

lemmas world_defs = disk_def go_mime_def fresh_cache_def hello_def old_bytes_def plain_asset_def
  site_def warm_def aged_def nested_def srv_def machine_def unreadable_def

lemmas path_defs = Clean_def clean_elem_def Ext_def

lemmas build_defs = Let_def Gen_built_def stringsContainsCI_def Compressable_def lower_char_def
  gzipBytes_def quoted_hex_def hex_byte_def hex_digit_def

subsection \<open>A failed \<open>Gen\<close> leaves the cache as it was\<close>






subsection \<open>The compressed variant of a generated asset\<close>

lemma quoted_hex_not_Nil: "quoted_hex et \<noteq> []"
  by (simp add: quoted_hex_def)

lemma Gen_built_shape:
  assumes "Gen_built w a file fs f content = (a', Inr asset)"
  shows "a' = a\<lparr>Cache := (Cache a)(file \<mapsto> asset)\<rparr> \<and> Content asset = content \<and>
         Compressed asset = stringsContainsCI Compressable (Ext file) \<and>
         (ContentCompressed asset \<noteq> None) = Compressed asset \<and>
         (EtagCompressed asset \<noteq> []) = Compressed asset"
  using assms
  by (auto simp: Gen_built_def Let_def quoted_hex_not_Nil split: sum.splits if_splits)

lemma Gen_success_aux:
  assumes "Gen w a n = Some y"
  shows
    "(case snd y of
        Inl e \<Rightarrow> True
      | Inr asset \<Rightarrow>
          (\<exists>file. ReadFile w file = Inr (Content asset) \<and>
                  fst y = a\<lparr>Cache := (Cache a)(file \<mapsto> asset)\<rparr> \<and>
                  Compressed asset = stringsContainsCI Compressable (Ext file) \<and>
                  (ContentCompressed asset \<noteq> None) = Compressed asset \<and>
                  (EtagCompressed asset \<noteq> []) = Compressed asset))"
proof (rule Gen.raw_induct
    [where P = "\<lambda>w a n y. (case snd y of
        Inl e \<Rightarrow> True
      | Inr asset \<Rightarrow>
          (\<exists>file. ReadFile w file = Inr (Content asset) \<and>
                  fst y = a\<lparr>Cache := (Cache a)(file \<mapsto> asset)\<rparr> \<and>
                  Compressed asset = stringsContainsCI Compressable (Ext file) \<and>
                  (ContentCompressed asset \<noteq> None) = Compressed asset \<and>
                  (EtagCompressed asset \<noteq> []) = Compressed asset))", OF _ assms],
    goal_cases)
  case (1 gen w a n y)
  obtain a' r where y: "y = (a', r)" by (cases y)
  show ?case
  proof (cases r)
    case (Inl e)
    with y show ?thesis by simp
  next
    case (Inr asset)
    show ?thesis
    proof (cases "Stat w (Clean (Dir a @ n))")
      case (Inl e)
      with 1(2) y Inr show ?thesis by simp
    next
      case st: (Inr fs)
      show ?thesis
      proof (cases "IsDir fs")
        case True
        with 1(2) st have "gen w a (Clean (Dir a @ n) @ ''/index.html'') = Some y" by simp
        from 1(1) [OF this] show ?thesis .
      next
        case False
        with 1(2) st y Inr obtain f content where
          rf: "ReadFile w (Clean (Dir a @ n)) = Inr content" and
          gb: "Gen_built w a (Clean (Dir a @ n)) fs f content = (a', Inr asset)"
          by (auto split: sum.splits)
        from Gen_built_shape [OF gb] rf y Inr show ?thesis
          by auto
      qed
    qed
  qed
qed

text \<open>
  Claim C5. An asset that \<open>Gen\<close> returned was built from a file, is stored under that
  file's path, and has its compressed bytes and its compressed tag both set or both
  unset; they are set exactly when \<open>stringsContainsCI\<close> finds the extension of the file
  in \<open>Compressable\<close>.
\<close>

theorem compressed_iff_extension:
  assumes "Gen w a n = Some (a', Inr asset)"
  shows "\<exists>file. ReadFile w file = Inr (Content asset) \<and> Cache a' file = Some asset \<and>
           ((ContentCompressed asset \<noteq> None) = (EtagCompressed asset \<noteq> [])) \<and>
           ((ContentCompressed asset \<noteq> None) = stringsContainsCI Compressable (Ext file))"
  using Gen_success_aux [OF assms] by auto

lemma srv_index_generated:
  "Gen srv (fresh_cache ''/srv'') ''/index.html'' =
     Some ((fresh_cache ''/srv'')\<lparr>Cache := [''/srv/index.html'' \<mapsto>
              \<lparr>ContentType = ''text/html; charset=utf-8'', Loaded = 50, ModTime = 3,
               Content = hello, ContentCompressed = Some (0x1f # 0x8b # hello),
               Etag = quoted_hex (Sum256 srv hello),
               EtagCompressed = quoted_hex (Sum256 srv (0x1f # 0x8b # hello)),
               Compressed = True\<rparr>]\<rparr>,
           Inr \<lparr>ContentType = ''text/html; charset=utf-8'', Loaded = 50, ModTime = 3,
               Content = hello, ContentCompressed = Some (0x1f # 0x8b # hello),
               Etag = quoted_hex (Sum256 srv hello),
               EtagCompressed = quoted_hex (Sum256 srv (0x1f # 0x8b # hello)),
               Compressed = True\<rparr>)"
  by (simp add: Gen.simps world_defs path_defs build_defs)

theorem compressed_iff_extension_witness:
  "\<exists>file. ReadFile srv file = Inr hello \<and>
      stringsContainsCI Compressable (Ext file) \<and>
      map_option ContentCompressed (Gen_asset srv (fresh_cache ''/srv'') ''/index.html'') =
        Some (Some (0x1f # 0x8b # hello))"
  using compressed_iff_extension [OF srv_index_generated] srv_index_generated
  by (auto simp: Gen_asset_def)

subsection \<open>\<open>Get\<close> as written\<close>

text \<open>
  Claim C3. In \<open>Get\<close> as written, a key that is in the cache makes \<open>Get\<close> call \<open>Gen\<close> and
  return what \<open>Gen\<close> built (or \<open>nil, false\<close> when \<open>Gen\<close> failed), and a key that is not in
  the cache makes \<open>Get\<close> panic on the type assertion: on a miss \<open>Get\<close> does not return.
\<close>

theorem Get_as_written:
  "(Cache a (Clean (Dir a @ n)) \<noteq> None \<longrightarrow>
      Get w a n =
        map_option (\<lambda>(a', r). (a', Returns (case r of Inl err \<Rightarrow> (None, False)
                                                   | Inr asset \<Rightarrow> (Some asset, True))))
          (Gen w a (Clean (Dir a @ n)))) \<and>
   (Cache a (Clean (Dir a @ n)) = None \<longrightarrow> Get w a n = Some (a, Panics))"
  by (auto simp: Get_def split: option.splits sum.splits)

theorem Get_as_written_witness:
  "Get site warm ''/logo.png'' =
     map_option (\<lambda>(a', r). (a', Returns (case r of Inl err \<Rightarrow> (None, False)
                                                | Inr asset \<Rightarrow> (Some asset, True))))
       (Gen site warm ''/logo.png'') \<and>
   Get site (fresh_cache ''/'') ''/logo.png'' = Some (fresh_cache ''/'', Panics)"
proof -
  have key: "Clean ''//logo.png'' = ''/logo.png''"
    by (simp add: path_defs)
  have hit: "Cache warm (Clean (Dir warm @ ''/logo.png'')) \<noteq> None"
    by (simp add: warm_def fresh_cache_def key)
  have miss: "Cache (fresh_cache ''/'') (Clean (Dir (fresh_cache ''/'') @ ''/logo.png'')) = None"
    by (simp add: fresh_cache_def)
  have dir: "Dir warm = ''/''"
    by (simp add: warm_def fresh_cache_def)
  show ?thesis
    using Get_as_written [of warm "''/logo.png''" site]
      Get_as_written [of "fresh_cache ''/''" "''/logo.png''" site] hit miss key dir
    by simp
qed

text \<open>
  Claim C1. The contract asks \<open>Get\<close> to return a cached entry without touching the file
  system and to call \<open>Gen\<close> on a miss. At the cache \<open>warm\<close>, which holds an entry for
  \<open>/logo.png\<close>, \<open>Get\<close> reads the file again and returns and stores the new entry; at the
  empty cache, with the file on disk, \<open>Get\<close> panics.
\<close>

theorem Get_hit_regenerates_miss_panics:
  "Get site warm ''/logo.png'' =
     Some (warm\<lparr>Cache := (Cache warm)(''/logo.png'' \<mapsto>
              \<lparr>ContentType = ''image/png'', Loaded = 50, ModTime = 3, Content = hello,
               ContentCompressed = None, Etag = quoted_hex (Sum256 site hello),
               EtagCompressed = [], Compressed = False\<rparr>)\<rparr>,
           Returns (Some \<lparr>ContentType = ''image/png'', Loaded = 50, ModTime = 3, Content = hello,
               ContentCompressed = None, Etag = quoted_hex (Sum256 site hello),
               EtagCompressed = [], Compressed = False\<rparr>, True)) \<and>
   Cache warm ''/logo.png'' = Some (plain_asset old_bytes 40) \<and>
   Content (plain_asset old_bytes 40) \<noteq> hello \<and>
   Get site (fresh_cache ''/'') ''/logo.png'' = Some (fresh_cache ''/'', Panics)"
  by (simp add: Get_def Gen.simps world_defs path_defs build_defs)

subsection \<open>The sweep\<close>

lemma sweep_keeps:
  "Cache (sweep a now) key = Some asset \<longleftrightarrow>
     Cache a key = Some asset \<and> Loaded asset + Expire a \<le> now"
  by (auto simp: sweep_def Add_def After_def split: option.splits)

text \<open>
  Claim C2. The claim wants an entry loaded at \<open>t0\<close> gone at every tick from \<open>t0 + T\<close> on
  and present at every tick before. The entry of \<open>aged\<close> was loaded at 100 and the time
  to live is 10: the tick at 105 deletes it, and the ticks at 110 and later keep it.
\<close>

theorem sweep_evicts_young_keeps_old:
  "Cache (sweep aged 105) ''/logo.png'' = None \<and>
   Cache (sweep aged 110) ''/logo.png'' = Some (plain_asset hello 100) \<and>
   Cache (sweeper aged [110, 150, 200]) ''/logo.png'' = Some (plain_asset hello 100)"
  by (simp add: sweep_def sweeper_def Add_def After_def world_defs)

subsection \<open>\<open>Close\<close>\<close>

text \<open>
  Claim C9. \<open>Close\<close> empties the cache and stops the ticker, and takes no file system.
  The lookup after it, for the key that was cached, does not call \<open>Gen\<close>: it panics.
\<close>

theorem Close_then_Get_panics:
  "Cache warm ''/logo.png'' = Some (plain_asset old_bytes 40) \<and>
   Cache (fst (Close warm)) = Map.empty \<and>
   Ticker (fst (Close warm)) = Some \<lparr>Period = 1, Stopped = True\<rparr> \<and>
   Get site (fst (Close warm)) ''/logo.png'' = Some (fst (Close warm), Panics)"
  by (simp add: Close_def Stop_def Get_def world_defs path_defs)

subsection \<open>Directories\<close>

lemma split_slash_not_Nil: "split_slash p \<noteq> []"
  by (induction p) (auto split: list.splits)

lemma split_slash_append: "split_slash (d @ CHR ''/'' # r) = split_slash d @ split_slash r"
  by (induction d) (auto simp: split_slash_not_Nil split: list.splits)

lemma split_slash_free: "s \<in> set (split_slash p) \<Longrightarrow> CHR ''/'' \<notin> set s"
  by (induction p arbitrary: s) (auto split: list.splits if_splits)

lemma split_slash_single: "CHR ''/'' \<notin> set s \<Longrightarrow> split_slash s = [s]"
  by (induction s) auto

lemma split_join: "list_all plain S \<Longrightarrow> S \<noteq> [] \<Longrightarrow> split_slash (join_slash S) = S"
proof (induction S rule: join_slash.induct)
  case 1
  then show ?case by simp
next
  case (2 s)
  then show ?case by (simp add: plain_def split_slash_single)
next
  case (3 s t ss)
  then show ?case by (simp add: split_slash_append plain_def split_slash_single)
qed

lemma clean_plain: "list_all plain S \<Longrightarrow> foldl (clean_elem True) acc S = acc @ S"
  by (induction S arbitrary: acc) (auto simp: clean_elem_def plain_def)

lemma clean_elem_plain:
  "list_all plain acc \<Longrightarrow> CHR ''/'' \<notin> set s \<Longrightarrow> list_all plain (clean_elem True acc s)"
  by (auto simp: clean_elem_def plain_def list_all_iff dest: in_set_butlastD)

lemma foldl_clean_plain:
  "list_all plain acc \<Longrightarrow> (\<forall>s\<in>set xs. CHR ''/'' \<notin> set s) \<Longrightarrow>
   list_all plain (foldl (clean_elem True) acc xs)"
  by (induction xs arbitrary: acc) (auto simp: clean_elem_plain)

lemma Clean_rooted:
  "Clean (CHR ''/'' # d) = CHR ''/'' # join_slash (foldl (clean_elem True) [] (split_slash d))"
  by (simp add: Clean_def clean_elem_def)

lemma reclean:
  assumes "list_all plain S"
  shows "foldl (clean_elem True) [] (split_slash (join_slash S)) = S"
proof (cases "S = []")
  case True
  then show ?thesis by (simp add: clean_elem_def)
next
  case False
  with assms show ?thesis by (simp add: split_join clean_plain)
qed

lemma Clean_index:
  "Clean (CHR ''/'' # Clean (CHR ''/'' # d) @ ''/index.html'') = Clean (CHR ''/'' # d @ ''/index.html'')"
proof -
  let ?S = "foldl (clean_elem True) [] (split_slash d)"
  have S: "list_all plain ?S"
    by (rule foldl_clean_plain) (auto dest: split_slash_free)
  have idx: "split_slash ''index.html'' = [''index.html'']" by simp
  have "split_slash (d @ ''/index.html'') = split_slash d @ [''index.html'']"
    using split_slash_append [of d "''index.html''"] idx by simp
  then have r: "Clean (CHR ''/'' # d @ ''/index.html'') = CHR ''/'' # join_slash (?S @ [''index.html''])"
    by (simp add: Clean_rooted) (simp add: clean_elem_def)
  have "split_slash ((CHR ''/'' # join_slash ?S) @ ''/index.html'') =
        [] # split_slash (join_slash ?S) @ [''index.html'']"
    using split_slash_append [of "CHR ''/'' # join_slash ?S" "''index.html''"] idx by simp
  then have "foldl (clean_elem True) [] (split_slash ((CHR ''/'' # join_slash ?S) @ ''/index.html''))
        = clean_elem True (foldl (clean_elem True) [] (split_slash (join_slash ?S))) ''index.html''"
    by (simp add: clean_elem_def)
  also have "\<dots> = ?S @ [''index.html'']"
    by (simp add: reclean [OF S]) (simp add: clean_elem_def)
  finally have l: "Clean (CHR ''/'' # (CHR ''/'' # join_slash ?S) @ ''/index.html'') =
      CHR ''/'' # join_slash (?S @ [''index.html''])"
    by (simp only: Clean_rooted)
  show ?thesis
    using l r by (simp add: Clean_rooted)
qed

lemma Gen_same_key:
  assumes "Clean (Dir a @ x) = Clean (Dir a @ y)"
  shows "Gen w a x = Gen w a y"
  by (subst Gen.simps [of w a x], subst Gen.simps [of w a y], unfold assms, rule refl)

text \<open>
  With the root \<open>/\<close>, where prefixing the root a second time changes no cleaned path,
  \<open>Gen\<close> of a path that cleans to a directory is \<open>Gen\<close> of that path followed by
  \<open>/index.html\<close>: the same result and the same cache.
\<close>

lemma Gen_directory_index_at_root:
  assumes "Dir a = ''/''" and "Stat w (Clean (Dir a @ d)) = Inr fs" and "IsDir fs"
  shows "Gen w a d = Gen w a (d @ ''/index.html'')"
proof -
  have "Gen w a d = Gen w a (Clean (Dir a @ d) @ ''/index.html'')"
    using assms(2,3) by (subst Gen.simps) simp
  also have "\<dots> = Gen w a (d @ ''/index.html'')"
    by (rule Gen_same_key) (simp add: assms(1) Clean_index)
  finally show ?thesis .
qed

text \<open>
  The recursion has no bound on its depth: in \<open>nested\<close>, under the root \<open>/\<close>, the index
  file of \<open>/docs\<close> is a directory, and \<open>Gen\<close> of \<open>/docs\<close> is the asset of
  \<open>/docs/index.html/index.html\<close>.
\<close>

lemma nested_index_followed:
  "Gen_asset nested (fresh_cache ''/'') ''/docs'' =
     Some \<lparr>ContentType = ''text/html; charset=utf-8'', Loaded = 50, ModTime = 3, Content = hello,
           ContentCompressed = Some (0x1f # 0x8b # hello),
           Etag = quoted_hex (Sum256 nested hello),
           EtagCompressed = quoted_hex (Sum256 nested (0x1f # 0x8b # hello)),
           Compressed = True\<rparr>"
  by (simp add: Gen_asset_def Gen.simps world_defs path_defs build_defs)

text \<open>
  Claim C4. The claim wants \<open>Gen\<close> of a directory \<open>d\<close> under the root to yield the asset
  that \<open>Gen\<close> of \<open>d/index.html\<close> yields. Under the root \<open>/srv\<close>, where \<open>/srv/docs\<close> is a
  directory with the file \<open>index.html\<close>, \<open>Gen\<close> of \<open>/docs/index.html\<close> returns the asset,
  but \<open>Gen\<close> of \<open>/docs\<close> calls itself on the cleaned name \<open>/srv/docs/index.html\<close>, puts
  the root in front of it once more, looks for \<open>/srv/srv/docs/index.html\<close> and returns
  the error of \<open>os.Stat\<close>.
\<close>

theorem directory_index_prefixed_twice:
  "Stat srv (Clean (Dir (fresh_cache ''/srv'') @ ''/docs'')) = Inr \<lparr>IsDir = True, StatModTime = 1\<rparr> \<and>
   Clean (Dir (fresh_cache ''/srv'') @ ''/docs'') @ ''/index.html'' = ''/srv/docs/index.html'' \<and>
   Clean (Dir (fresh_cache ''/srv'') @ ''/srv/docs/index.html'') = ''/srv/srv/docs/index.html'' \<and>
   Gen srv (fresh_cache ''/srv'') ''/docs'' = Some (fresh_cache ''/srv'', Inl ErrNotExist) \<and>
   Gen_asset srv (fresh_cache ''/srv'') ''/docs/index.html'' =
     Some \<lparr>ContentType = ''text/html; charset=utf-8'', Loaded = 50, ModTime = 4, Content = hello,
           ContentCompressed = Some (0x1f # 0x8b # hello),
           Etag = quoted_hex (Sum256 srv hello),
           EtagCompressed = quoted_hex (Sum256 srv (0x1f # 0x8b # hello)),
           Compressed = True\<rparr>"
  by (simp add: Gen_asset_def Gen.simps world_defs path_defs build_defs)

subsection \<open>The asset of \<open>index.html\<close>\<close>

lemma Ext_index: "Ext (d @ ''/index.html'') = ''.html''"
  by (simp add: Ext_def)

lemma html_compressable: "stringsContainsCI Compressable ''.html''"
  by (simp add: stringsContainsCI_def Compressable_def lower_char_def)

text \<open>
  Claim C7, as the code has it. For a file \<open>index.html\<close> with the content \<open>hello\<close>, the
  asset has the content type that the MIME table gives for \<open>.html\<close>, the quoted
  lower-case hexadecimal digest of \<open>hello\<close> as its tag, the bytes that gzip at level 9
  made of \<open>hello\<close> as its compressed content, and the quoted digest of those bytes as
  its compressed tag.
\<close>

theorem Gen_index_html_hello:
  assumes "Clean (Dir a @ n) = d @ ''/index.html''"
    and "Stat w (d @ ''/index.html'') = Inr fs" and "\<not> IsDir fs"
    and "Open w (d @ ''/index.html'') = Inr (Inr hello)"
    and "ReadFile w (d @ ''/index.html'') = Inr hello"
    and "GzipStream w 9 hello = Inr z"
  shows "Gen w a n =
    Some (a\<lparr>Cache := (Cache a)(d @ ''/index.html'' \<mapsto>
             \<lparr>ContentType = TypeByExtension w ''.html'', Loaded = Now w, ModTime = StatModTime fs,
              Content = hello, ContentCompressed = Some z,
              Etag = quoted_hex (Sum256 w hello),
              EtagCompressed = quoted_hex (Sum256 w z), Compressed = True\<rparr>)\<rparr>,
          Inr \<lparr>ContentType = TypeByExtension w ''.html'', Loaded = Now w, ModTime = StatModTime fs,
              Content = hello, ContentCompressed = Some z,
              Etag = quoted_hex (Sum256 w hello),
              EtagCompressed = quoted_hex (Sum256 w z), Compressed = True\<rparr>)"
  using assms
  by (subst Gen.simps)
     (simp add: Let_def Gen_built_def Ext_index html_compressable gzipBytes_def)

theorem Gen_index_html_hello_witness:
  "Gen srv (fresh_cache ''/srv'') ''/index.html'' =
     Some ((fresh_cache ''/srv'')\<lparr>Cache := [''/srv/index.html'' \<mapsto>
              \<lparr>ContentType = ''text/html; charset=utf-8'', Loaded = 50, ModTime = 3,
               Content = hello, ContentCompressed = Some (0x1f # 0x8b # hello),
               Etag = quoted_hex (Sum256 srv hello),
               EtagCompressed = quoted_hex (Sum256 srv (0x1f # 0x8b # hello)),
               Compressed = True\<rparr>]\<rparr>,
           Inr \<lparr>ContentType = ''text/html; charset=utf-8'', Loaded = 50, ModTime = 3,
               Content = hello, ContentCompressed = Some (0x1f # 0x8b # hello),
               Etag = quoted_hex (Sum256 srv hello),
               EtagCompressed = quoted_hex (Sum256 srv (0x1f # 0x8b # hello)),
               Compressed = True\<rparr>)"
proof -
  have k: "Clean (Dir (fresh_cache ''/srv'') @ ''/index.html'') = ''/srv'' @ ''/index.html''"
    by (simp add: fresh_cache_def path_defs)
  have st: "Stat srv (''/srv'' @ ''/index.html'') = Inr \<lparr>IsDir = False, StatModTime = 3\<rparr>"
    by (simp add: srv_def disk_def)
  have nd: "\<not> IsDir \<lparr>IsDir = False, StatModTime = 3\<rparr>"
    by simp
  have op: "Open srv (''/srv'' @ ''/index.html'') = Inr (Inr hello)"
    by (simp add: srv_def disk_def)
  have rd: "ReadFile srv (''/srv'' @ ''/index.html'') = Inr hello"
    by (simp add: srv_def disk_def)
  have gz: "GzipStream srv 9 hello = Inr (0x1f # 0x8b # hello)"
    by (simp add: srv_def disk_def)
  show ?thesis
    using Gen_index_html_hello [OF k st nd op rd gz]
    by (simp add: srv_def disk_def go_mime_def fresh_cache_def)
qed

text \<open>
  Against claim C7 as stated: with the table of Go's \<open>mime\<close> package the content type of
  \<open>index.html\<close> is \<open>text/html; charset=utf-8\<close>, not \<open>text/html\<close>.
\<close>

theorem content_type_counterexample:
  "map_option ContentType (Gen_asset srv (fresh_cache ''/srv'') ''/index.html'') =
     Some ''text/html; charset=utf-8'' \<and>
   map_option ContentType (Gen_asset srv (fresh_cache ''/srv'') ''/index.html'') \<noteq>
     Some ''text/html'' \<and>
   map_option Content (Gen_asset srv (fresh_cache ''/srv'') ''/index.html'') = Some hello"
  by (simp add: Gen_asset_def Gen.simps world_defs path_defs build_defs)

subsection \<open>Serving\<close>

text \<open>
  Claim C6. \<open>Serve\<close> hands the compressed bytes to \<open>Write\<close> and sets the \<open>etag\<close> header
  to the compressed tag when the asset is marked compressed and the request's
  \<open>accept-encoding\<close> header contains \<open>gzip\<close>; in every other case it hands the raw bytes
  to \<open>Write\<close> and sets \<open>etag\<close> to the raw tag.
\<close>

theorem Serve_representation:
  "(if Compressed as \<and> Contains (Header c ''accept-encoding'') ''gzip''
    then RespHeader (fst (Serve w as c)) ''etag'' = Some (EtagCompressed as) \<and>
         Written (fst (Serve w as c)) = Written c @ [slice (ContentCompressed as)]
    else RespHeader (fst (Serve w as c)) ''etag'' = Some (Etag as) \<and>
         Written (fst (Serve w as c)) = Written c @ [Content as])"
proof -
  obtain n1 e1 where w1: "WriteResult c (slice (ContentCompressed as)) = (n1, e1)"
    by (cases "WriteResult c (slice (ContentCompressed as))")
  obtain n2 e2 where w2: "WriteResult c (Content as) = (n2, e2)"
    by (cases "WriteResult c (Content as)")
  show ?thesis
    by (cases "Compressed as"; cases "Contains (Header c ''accept-encoding'') ''gzip''")
       (simp_all add: Serve_def Let_def Write_def SetHeader_def SetContentType_def Header_def
          GetHeader_def w1 w2)
qed

subsection \<open>Paths that leave the root\<close>

text \<open>
  Claim C10. There is a request path with \<open>..\<close> elements whose key, the cleaned
  concatenation of the root and the path as \<open>Handler\<close>, \<open>Get\<close> and \<open>Gen\<close> compute it, is
  not under the root: with the root \<open>/srv/www\<close> the path \<open>/../../etc/passwd\<close> gives the
  key \<open>/etc/passwd\<close>, and \<open>Gen\<close> reads that file and caches it under that key.
\<close>

theorem dotdot_leaves_root:
  "\<exists>p. ''..'' \<in> set (split_slash p) \<and>
       Handler_name (fresh_cache ''/srv/www'') (request p []) = ''/etc/passwd'' \<and>
       Clean (Dir (fresh_cache ''/srv/www'') @ p) = ''/etc/passwd'' \<and>
       \<not> prefix (Dir (fresh_cache ''/srv/www'')) ''/etc/passwd'' \<and>
       map_option Content (Gen_asset machine (fresh_cache ''/srv/www'') p) = Some old_bytes \<and>
       map_option (\<lambda>r. map_option Content (Cache (fst r) ''/etc/passwd''))
         (Gen machine (fresh_cache ''/srv/www'') p) = Some (Some old_bytes)"
  by (rule exI [of _ "''/../../etc/passwd''"])
     (simp add: Handler_name_def request_def Gen_asset_def Gen.simps world_defs path_defs build_defs)

end
